theory Spec2Isabelle
  imports Main "HOL-Library.Sublist"
begin

section \<open>Values of the runtime\<close>

text \<open>
  The generator is a Node script. Its strings are sequences of UTF-16 code units: a
  string is modelled as the list of its code units, so that \<open>substring\<close> counts what the
  runtime counts and the en dash of the \<open>final\<close> field is the single unit U+2013.
  Literal ASCII text of the source is written \<open>utf16 ''...''\<close>.
\<close>

type_synonym jsstring = "nat list"

definition utf16 :: "string \<Rightarrow> jsstring" where
  "utf16 s = map of_char s"

definition en_dash :: nat where
  "en_dash = 8211"

text \<open>
  A property of a parsed JSON object is missing (reading it gives \<open>undefined\<close>), is
  \<open>null\<close>, or holds a value of the type the provider's contract gives it.
\<close>

datatype 'a field = Absent | Null | Val 'a

text \<open>An identifier is a string in the stub data and a number in the provider's payloads.\<close>

datatype jsid = IdStr jsstring | IdNum int

text \<open>Truthiness, as \<open>&&\<close>, \<open>||\<close>, \<open>!\<close> and \<open>if\<close> test it.\<close>

fun truthy_bool :: "bool field \<Rightarrow> bool" where
  "truthy_bool (Val b) = b"
| "truthy_bool _ = False"

fun truthy_num :: "int field \<Rightarrow> bool" where
  "truthy_num (Val n) = (n \<noteq> 0)"
| "truthy_num _ = False"

fun truthy_str :: "jsstring field \<Rightarrow> bool" where
  "truthy_str (Val s) = (s \<noteq> [])"
| "truthy_str _ = False"

fun truthy_id :: "jsid field \<Rightarrow> bool" where
  "truthy_id (Val (IdStr s)) = (s \<noteq> [])"
| "truthy_id (Val (IdNum n)) = (n \<noteq> 0)"
| "truthy_id _ = False"

text \<open>\<open>x || 0\<close> on a numeric property.\<close>

definition or_zero :: "int field \<Rightarrow> int" where
  "or_zero x = (if truthy_num x then (case x of Val n \<Rightarrow> n | _ \<Rightarrow> 0) else 0)"

text \<open>\<open>x || ''\<close> on a string property.\<close>

definition or_empty :: "jsstring field \<Rightarrow> jsstring" where
  "or_empty x = (if truthy_str x then (case x of Val s \<Rightarrow> s | _ \<Rightarrow> []) else [])"

text \<open>
  \<open>x === n\<close> and \<open>x > n\<close> on a numeric property. The strict equality holds for the
  number itself only; the comparison converts \<open>null\<close> to 0 and \<open>undefined\<close> to NaN,
  which is greater than nothing.
\<close>

fun strict_eq :: "int field \<Rightarrow> int \<Rightarrow> bool" where
  "strict_eq (Val m) n = (m = n)"
| "strict_eq _ n = False"

fun greater :: "int field \<Rightarrow> int \<Rightarrow> bool" where
  "greater (Val m) n = (m > n)"
| "greater Null n = (0 > n)"
| "greater Absent n = False"

text \<open>
  Numbers are the integers of the payloads, as \<open>int\<close>: the script adds, subtracts and
  compares them, which the runtime's doubles do exactly for integers below \<open>2^53\<close> in
  magnitude. Number to string, for such integers (decimal digits, a minus sign for a
  negative number), and the text a template literal gives a property.
\<close>

fun digits :: "nat \<Rightarrow> jsstring" where
  "digits n = (if n < 10 then [48 + n] else digits (n div 10) @ [48 + n mod 10])"

declare digits.simps [simp del]

definition String_of_int :: "int \<Rightarrow> jsstring" where
  "String_of_int i = (if i < 0 then 45 # digits (nat (- i)) else digits (nat i))"

fun template_num :: "int field \<Rightarrow> jsstring" where
  "template_num (Val n) = String_of_int n"
| "template_num Null = utf16 ''null''"
| "template_num Absent = utf16 ''undefined''"

fun template_str :: "jsstring field \<Rightarrow> jsstring" where
  "template_str (Val s) = s"
| "template_str Null = utf16 ''null''"
| "template_str Absent = utf16 ''undefined''"

text \<open>
  \<open>substring\<close> swaps its bounds when they are out of order and clamps them to the
  string. \<open>toUpperCase\<close> carries the ASCII part of the runtime's case mapping (the letters
  a to z); every other code unit is left as it is.
\<close>

definition substring :: "jsstring \<Rightarrow> nat \<Rightarrow> nat \<Rightarrow> jsstring" where
  "substring s a b = (let lo = min a b; hi = max a b in take (hi - lo) (drop lo s))"

definition toUpperCase :: "jsstring \<Rightarrow> jsstring" where
  "toUpperCase s = map (\<lambda>c. if 97 \<le> c \<and> c \<le> 122 then c - 32 else c) s"

definition padStart :: "jsstring \<Rightarrow> nat \<Rightarrow> nat \<Rightarrow> jsstring" where
  "padStart s n c = replicate (n - length s) c @ s"

text \<open>
  \<open>Array.prototype.sort\<close> with a comparator. The language standard requires the sort to
  be stable; the model is the insertion sort that puts an element before the first one
  it does not have to follow (\<open>cmp x y \<le> 0\<close>). \<open>slice(0, n)\<close> keeps the first \<open>n\<close>
  elements.
\<close>

fun insert_sorted :: "('a \<Rightarrow> 'a \<Rightarrow> int) \<Rightarrow> 'a \<Rightarrow> 'a list \<Rightarrow> 'a list" where
  "insert_sorted cmp x [] = [x]"
| "insert_sorted cmp x (y # ys) =
     (if cmp x y \<le> 0 then x # y # ys else y # insert_sorted cmp x ys)"

definition Array_sort :: "('a \<Rightarrow> 'a \<Rightarrow> int) \<Rightarrow> 'a list \<Rightarrow> 'a list" where
  "Array_sort cmp xs = foldr (insert_sorted cmp) xs []"

definition slice :: "'a list \<Rightarrow> nat \<Rightarrow> nat \<Rightarrow> 'a list" where
  "slice xs a b = take (b - a) (drop a xs)"


section \<open>Game records\<close>

text \<open>
  A game payload, as the provider's \<open>/games\<close> endpoint and the stub give it. The
  properties \<open>recap_2s\<close>, \<open>one_stat\<close> and \<open>why_it_mattered\<close> are the ones
  \<open>generateRecap\<close> assigns; a payload does not have them.
\<close>

record game =
  ident :: "jsid field"
  home_team :: "jsstring field"
  away_team :: "jsstring field"
  home_points :: "int field"
  away_points :: "int field"
  completed :: "bool field"
  periods :: "int field"
  conference_game :: "bool field"
  home_id :: "int field"
  away_id :: "int field"
  tags :: "jsstring list field"
  recap_2s :: "jsstring field"
  one_stat :: "jsstring field"
  why_it_mattered :: "jsstring field"

datatype side = Home | Away

text \<open>
  \<open>rankGames\<close> assigns four more properties to each object it keeps:
  \<open>_rankScore\<close>, \<open>_scoreDiff\<close>, \<open>_totalPoints\<close> and \<open>_winner\<close>.
\<close>

record ranked_game = game +
  rankScore :: int
  scoreDiff :: int
  totalPoints :: int
  winner :: side


section \<open>rankGames\<close>

text \<open>The predicate of the filter: \<open>g.completed && g.home_points !== null && g.away_points !== null\<close>.\<close>

definition rankGames_filter :: "game \<Rightarrow> bool" where
  "rankGames_filter g =
     (truthy_bool (completed g) \<and> home_points g \<noteq> Null \<and> away_points g \<noteq> Null)"

text \<open>The function mapped over the completed games: the score is built up statement by statement.\<close>

definition rankGames_score :: "game \<Rightarrow> ranked_game" where
  "rankGames_score g =
     (let score0 = 0;
          homeScore = or_zero (home_points g);
          awayScore = or_zero (away_points g);
          scoreDiff = \<bar>homeScore - awayScore\<bar>;
          totalPoints = homeScore + awayScore;
          score1 = (if scoreDiff \<le> 8 then score0 + 6 else score0);
          score2 = (if scoreDiff \<le> 3 then score1 + 4 else score1);
          score3 = (if scoreDiff = 0 then score2 + 3 else score2);
          score4 = (if totalPoints > 70 then score3 + 3 else score3);
          score5 = (if totalPoints > 80 then score4 + 2 else score4);
          score6 = (if truthy_bool (conference_game g) then score5 + 1 else score5);
          score7 = (if strict_eq (periods g) 5 then score6 + 4 else score6);
          score8 = (if greater (periods g) 5 then score7 + 6 else score7)
      in game.extend g
           (ranked_game.fields score8 scoreDiff totalPoints
              (if homeScore > awayScore then Home else Away)))"

text \<open>The comparator of the sort: \<open>(a, b) => b._rankScore - a._rankScore\<close>.\<close>

definition rankGames_compare :: "ranked_game \<Rightarrow> ranked_game \<Rightarrow> int" where
  "rankGames_compare a b = rankScore b - rankScore a"

definition rankGames :: "game list \<Rightarrow> ranked_game list" where
  "rankGames games =
     (let completed = filter rankGames_filter games
      in map (\<lambda>game. game)
           (slice (Array_sort rankGames_compare (map rankGames_score completed)) 0 5))"


text \<open>
  Eligibility as the specification words it, to compare with the filter of the code: a
  record is eligible when it is completed and both scores are present and non-negative.
\<close>

definition spec_eligible :: "game \<Rightarrow> bool" where
  "spec_eligible g =
     (completed g = Val True
      \<and> (case home_points g of Val h \<Rightarrow> 0 \<le> h | _ \<Rightarrow> False)
      \<and> (case away_points g of Val a \<Rightarrow> 0 \<le> a | _ \<Rightarrow> False))"


section \<open>generateRecap\<close>

text \<open>
  The index \<open>Math.floor(Math.random() * whyOptions.length)\<close> into the three options is
  0, 1 or 2; the draw is an argument of the model.
\<close>

datatype pick = Pick0 | Pick1 | Pick2

definition generateRecap :: "ranked_game \<Rightarrow> pick \<Rightarrow> ranked_game" where
  "generateRecap game r =
     (let scoreDiff = scoreDiff game;
          totalPoints = totalPoints game;
          winner = winner game;
          wonTeam = template_str (if winner = Home then home_team game else away_team game);
          lostTeam = template_str (if winner = Away then home_team game else away_team game);
          isClose = (scoreDiff \<le> 8);
          isShootout = (totalPoints > 70);
          isOvertime = greater (periods game) 4;
          sentence1 =
            (if isOvertime then
               wonTeam @ utf16 '' survived ''
                 @ (if isShootout then utf16 ''a back-and-forth shootout''
                    else utf16 ''a tight contest'')
                 @ utf16 '' that required overtime to decide.''
             else if isClose then
               (if isShootout then
                  utf16 ''In a high-scoring affair, '' @ wonTeam @ utf16 '' edged ''
                    @ lostTeam @ utf16 '' by '' @ String_of_int scoreDiff @ utf16 '' point''
                    @ (if scoreDiff \<noteq> 1 then utf16 ''s'' else []) @ utf16 ''.''
                else
                  wonTeam @ utf16 '' pulled out a narrow '' @ String_of_int scoreDiff
                    @ utf16 ''-point victory over '' @ lostTeam @ utf16 ''.'')
             else
               wonTeam @ utf16 '' took control ''
                 @ (if isShootout then utf16 ''in the shootout'' else utf16 ''early'')
                 @ utf16 '' and maintained their lead throughout.'');
          sentence2 =
            (if isShootout then
               utf16 ''Both teams' offenses moved the ball effectively, but ''
                 @ (if winner = Home then wonTeam @ utf16 '' managed to get more stops''
                    else lostTeam @ utf16 '' fell short on crucial drives'')
                 @ utf16 ''.''
             else
               utf16 ''The decisive moments came ''
                 @ (if isClose then utf16 ''late in the game''
                    else utf16 ''when the winning team established momentum'')
                 @ utf16 ''.'');
          stat =
            (if isOvertime then template_num (periods game) @ utf16 '' periods total''
             else if isShootout then
               utf16 ''Combined '' @ String_of_int totalPoints @ utf16 '' points''
             else if isClose then String_of_int scoreDiff @ utf16 ''-point margin''
             else wonTeam @ utf16 '' won by '' @ String_of_int scoreDiff);
          whyOption0 =
            utf16 ''Both teams showed resilience, but execution in key moments made the difference.'';
          whyOption1 =
            (if isShootout then
               utf16 ''The high-scoring affair showcased explosive offenses struggling to get defensive stops.''
             else
               utf16 ''Defensive discipline and limiting mistakes proved critical in the outcome.'');
          whyOption2 =
            (if isClose then
               utf16 ''A single big play or stop swung momentum in this tightly contested game.''
             else
               utf16 ''The winner established control and never let their opponent back in the game.'')
      in game\<lparr>recap_2s := Val (sentence1 @ utf16 '' '' @ sentence2),
              one_stat := Val stat,
              why_it_mattered :=
                Val (case r of Pick0 \<Rightarrow> whyOption0 | Pick1 \<Rightarrow> whyOption1
                     | Pick2 \<Rightarrow> whyOption2)\<rparr>)"


section \<open>fetchGames and the stub\<close>

text \<open>
  What the one request to the provider comes to: \<open>fetch\<close> rejects (a transport error),
  or it resolves to a response with its \<open>ok\<close> flag, its status and its body. The body
  is \<open>None\<close> when \<open>response.json()\<close> rejects, and a list of game payloads otherwise
  (the provider's contract: a JSON array of game objects).
\<close>

record response =
  ok :: bool
  status :: nat
  json :: "game list option"

datatype network = Rejects | Resolves response

definition getStubGames :: "game list" where
  "getStubGames =
     [\<lparr>ident = Val (IdStr (utf16 ''2025-08-30-278-290'')),
       home_team = Val (utf16 ''Fresno State''),
       away_team = Val (utf16 ''Georgia Southern''),
       home_points = Val 28,
       away_points = Val 24,
       completed = Val True,
       periods = Absent,
       conference_game = Absent,
       home_id = Absent,
       away_id = Absent,
       tags = Absent,
       recap_2s = Absent,
       one_stat = Absent,
       why_it_mattered = Absent\<rparr>]"

text \<open>
  \<open>API_KEY\<close> is the environment variable: absent when it is not set. A thrown error
  and a rejected promise inside the \<open>try\<close> block both end in the \<open>catch\<close> block.
\<close>

definition fetchGames :: "jsstring field \<Rightarrow> network \<Rightarrow> game list" where
  "fetchGames API_KEY net =
     (if \<not> truthy_str API_KEY then getStubGames
      else case net of
             Rejects \<Rightarrow> getStubGames
           | Resolves gamesResponse \<Rightarrow>
               if \<not> ok gamesResponse then getStubGames
               else (case json gamesResponse of
                       None \<Rightarrow> getStubGames
                     | Some games \<Rightarrow> games))"


section \<open>mapToSchema\<close>

record team_meta =
  abbr :: "jsstring field"
  logo :: "jsstring field"

record team =
  name :: "jsstring field"
  abbr :: jsstring
  logo :: jsstring

record ids =
  home_id :: int
  away_id :: int
  game_id :: jsid

record published_game =
  home :: team
  away :: team
  final :: jsstring
  recap_2s :: jsstring
  one_stat :: jsstring
  why_it_mattered :: jsstring
  tags :: "jsstring list"
  ids :: ids

datatype error = TypeError

text \<open>
  \<open>teamData[t]?.abbr || t.substring(0, 4).toUpperCase()\<close>: the property key is the text
  of \<open>t\<close>; an entry with a truthy \<open>abbr\<close> gives it, and otherwise the fallback is
  computed, which throws when \<open>t\<close> is \<open>undefined\<close> or \<open>null\<close>. A property the
  lookup object inherits (\<open>constructor\<close>, say) has neither \<open>abbr\<close> nor \<open>logo\<close> and
  so acts as no entry.
\<close>

definition abbr_of :: "(jsstring \<rightharpoonup> team_meta) \<Rightarrow> jsstring field \<Rightarrow> error + jsstring" where
  "abbr_of teamData t =
     (let found = (case teamData (template_str t) of
                     None \<Rightarrow> Absent
                   | Some m \<Rightarrow> team_meta.abbr m)
      in if truthy_str found then Inr (or_empty found)
         else (case t of
                 Val s \<Rightarrow> Inr (toUpperCase (substring s 0 4))
               | _ \<Rightarrow> Inl TypeError))"

text \<open>\<open>teamData[t]?.logo || ''\<close>.\<close>

definition logo_of :: "(jsstring \<rightharpoonup> team_meta) \<Rightarrow> jsstring field \<Rightarrow> jsstring" where
  "logo_of teamData t =
     or_empty (case teamData (template_str t) of
                 None \<Rightarrow> Absent
               | Some m \<Rightarrow> team_meta.logo m)"

definition mapToSchema ::
  "'a game_scheme \<Rightarrow> (jsstring \<rightharpoonup> team_meta) \<Rightarrow> error + published_game" where
  "mapToSchema game teamData =
     (case abbr_of teamData (home_team game) of
        Inl e \<Rightarrow> Inl e
      | Inr home_abbr \<Rightarrow>
          (case abbr_of teamData (away_team game) of
             Inl e \<Rightarrow> Inl e
           | Inr away_abbr \<Rightarrow>
               Inr \<lparr>home = \<lparr>name = home_team game, abbr = home_abbr,
                             logo = logo_of teamData (home_team game)\<rparr>,
                    away = \<lparr>name = away_team game, abbr = away_abbr,
                             logo = logo_of teamData (away_team game)\<rparr>,
                    final = template_num (home_points game) @ [en_dash]
                              @ template_num (away_points game),
                    recap_2s = or_empty (game.recap_2s game),
                    one_stat = or_empty (game.one_stat game),
                    why_it_mattered = or_empty (game.why_it_mattered game),
                    tags = (case game.tags game of Val ts \<Rightarrow> ts | _ \<Rightarrow> []),
                    ids = \<lparr>home_id = or_zero (game.home_id game),
                            away_id = or_zero (game.away_id game),
                            game_id = (if truthy_id (ident game)
                                       then (case ident game of Val i \<Rightarrow> i | _ \<Rightarrow> IdStr [])
                                       else IdStr [])\<rparr>\<rparr>))"


section \<open>generateDraft\<close>

definition generateOpinions :: "ranked_game list \<Rightarrow> jsstring list" where
  "generateOpinions games =
     [utf16 ''Defensive coordinators are winning the early-season chess matches with aggressive third-down schemes.'',
      utf16 ''Quarterback efficiency on first and second down remains the strongest predictor of offensive success.'',
      utf16 ''Red-zone execution separated close games this week; teams that settled for field goals early paid the price later.'',
      utf16 ''Turnover margin continues to be the most reliable indicator of game outcomes, with a +2 swing worth roughly 10 points.'']"

record whats_next_item =
  wn_when :: jsstring
  wn_match :: jsstring
  wn_hook :: jsstring

definition generateWhatsNext :: "int \<Rightarrow> whats_next_item list" where
  "generateWhatsNext week =
     [\<lparr>wn_when = utf16 ''Fri'', wn_match = utf16 ''TBD'', wn_hook = utf16 ''Friday night spotlight''\<rparr>,
      \<lparr>wn_when = utf16 ''Sat'', wn_match = utf16 ''TBD'', wn_hook = utf16 ''Weekend showcase''\<rparr>]"

record meta =
  season :: int
  week :: int
  scope :: jsstring
  generated_at :: jsstring
  sources :: "jsstring list"

record draft =
  meta :: meta
  top_games :: "published_game list"
  quick_opinions :: "jsstring list"
  whats_next :: "whats_next_item list"

text \<open>The constants the script reads from its environment when it is loaded.\<close>

record config =
  SEASON :: int
  WEEK :: int
  SCOPE :: jsstring
  API_KEY :: "jsstring field"

text \<open>
  A run ends in \<open>process.exit\<close> with a code, nothing written, or it writes one document
  to a path (the segments joined after the script's directory). An error thrown inside
  \<open>generateDraft\<close> rejects its promise, and the handler attached to the call exits with
  code 1. Console output and failures of the file system are not part of the model.
\<close>

datatype outcome = Exit nat | Written "jsstring list" draft

text \<open>\<open>Array.prototype.map\<close> with a callback that may throw: the first error ends it.\<close>

fun map_throwing :: "('a \<Rightarrow> error + 'b) \<Rightarrow> 'a list \<Rightarrow> error + 'b list" where
  "map_throwing f [] = Inr []"
| "map_throwing f (x # xs) =
     (case f x of
        Inl e \<Rightarrow> Inl e
      | Inr y \<Rightarrow> (case map_throwing f xs of Inl e \<Rightarrow> Inl e | Inr ys \<Rightarrow> Inr (y # ys)))"

text \<open>
  \<open>draws k\<close> is the random index drawn for the \<open>k\<close>-th ranked game and \<open>now\<close> the
  text of \<open>new Date().toISOString()\<close>.
\<close>

definition generateDraft :: "config \<Rightarrow> network \<Rightarrow> (nat \<Rightarrow> pick) \<Rightarrow> jsstring \<Rightarrow> outcome" where
  "generateDraft cfg net draws now =
     (let games = fetchGames (API_KEY cfg) net
      in if games = [] then Exit 1
         else
           let ranked = rankGames games
           in case map_throwing
                     (\<lambda>(k, game). mapToSchema (generateRecap game (draws k)) Map.empty)
                     (enumerate 0 ranked) of
                Inl e \<Rightarrow> Exit 1
              | Inr processedGames \<Rightarrow>
                  let opinions = generateOpinions ranked;
                      whatsNext = generateWhatsNext (WEEK cfg);
                      draft = \<lparr>meta = \<lparr>season = SEASON cfg, week = WEEK cfg, scope = SCOPE cfg,
                                        generated_at = now,
                                        sources = [utf16 ''cfbd:v1 games/box; rankings/v1'']\<rparr>,
                               top_games = processedGames,
                               quick_opinions = opinions,
                               whats_next = whatsNext\<rparr>;
                      weekStr = padStart (String_of_int (WEEK cfg)) 2 48;
                      outputPath = [utf16 ''..'', utf16 ''data'', SCOPE cfg,
                                    utf16 ''week_'' @ weekStr @ utf16 ''.json'']
                  in Written outputPath draft)"


text \<open>The document a run wrote, if it wrote one.\<close>

fun written :: "outcome \<Rightarrow> draft option" where
  "written (Written outputPath d) = Some d"
| "written (Exit code) = None"

text \<open>The games of the document a run wrote; none when it wrote no document.\<close>

definition published :: "outcome \<Rightarrow> published_game list" where
  "published out = (case written out of Some d \<Rightarrow> top_games d | None \<Rightarrow> [])"


section \<open>Example inputs\<close>

text \<open>
  A payload with the two team names, the two scores and the \<open>completed\<close> flag, and
  every other property missing.
\<close>

definition payload :: "string \<Rightarrow> string \<Rightarrow> int field \<Rightarrow> int field \<Rightarrow> bool field \<Rightarrow> game" where
  "payload h a hp ap c =
     \<lparr>ident = Absent, home_team = Val (utf16 h), away_team = Val (utf16 a),
      home_points = hp, away_points = ap, completed = c, periods = Absent,
      conference_game = Absent, home_id = Absent, away_id = Absent, tags = Absent,
      recap_2s = Absent, one_stat = Absent, why_it_mattered = Absent\<rparr>"

text \<open>The game of the specification's scenario: A 28, B 24, four periods, no conference game.\<close>

definition scenario_game :: game where
  "scenario_game =
     (payload ''A'' ''B'' (Val 28) (Val 24) (Val True))
       \<lparr>periods := Val 4, conference_game := Val False\<rparr>"

definition tied_game :: game where
  "tied_game = payload ''C'' ''D'' (Val 21) (Val 21) (Val True)"

definition overtime_game :: game where
  "overtime_game =
     (payload ''E'' ''F'' (Val 42) (Val 42) (Val True))
       \<lparr>periods := Val 6, conference_game := Val True\<rparr>"

definition negative_game :: game where
  "negative_game = payload ''G'' ''H'' (Val (- 3)) (Val 7) (Val True)"

definition scoreless_game :: game where
  "scoreless_game = payload ''I'' ''J'' Absent Absent (Val True)"

definition unfinished_game :: game where
  "unfinished_game = payload ''K'' ''L'' Null Null (Val False)"

definition config_with_key :: config where
  "config_with_key =
     \<lparr>SEASON = 2025, WEEK = 1, SCOPE = utf16 ''cfb'', API_KEY = Val (utf16 ''key'')\<rparr>"

definition config_without_key :: config where
  "config_without_key =
     \<lparr>SEASON = 2025, WEEK = 1, SCOPE = utf16 ''cfb'', API_KEY = Absent\<rparr>"

definition answer :: "game list \<Rightarrow> network" where
  "answer games = Resolves \<lparr>ok = True, status = 200, json = Some games\<rparr>"

definition timestamp :: jsstring where
  "timestamp = utf16 ''2025-09-01T06:00:00.000Z''"

text \<open>A random source that draws the first option every time.\<close>

definition first_option :: "nat \<Rightarrow> pick" where
  "first_option k = Pick0"


section \<open>Properties of the sort and of the scoring\<close>

lemma length_insert_sorted: "length (insert_sorted cmp x ys) = Suc (length ys)"
  by (induction ys) simp_all

lemma length_Array_sort: "length (Array_sort cmp xs) = length xs"
  by (induction xs) (simp_all add: Array_sort_def length_insert_sorted)

lemma set_insert_sorted: "set (insert_sorted cmp x ys) = insert x (set ys)"
  by (induction ys) auto

lemma set_Array_sort: "set (Array_sort cmp xs) = set xs"
  by (induction xs) (simp_all add: Array_sort_def set_insert_sorted)

text \<open>
  Inserting an element moves it past elements of a strictly greater key only, so the
  elements of any one key keep their order.
\<close>

lemma filter_insert_sorted:
  assumes cmp: "\<And>a b. cmp a b = key b - key a"
  shows "filter (\<lambda>y. key y = k) (insert_sorted cmp x ys) = filter (\<lambda>y. key y = k) (x # ys)"
proof (induction ys)
  case Nil
  show ?case by simp
next
  case (Cons y ys)
  show ?case
  proof (cases "cmp x y \<le> 0")
    case True
    then show ?thesis by simp
  next
    case False
    with cmp have "key y \<noteq> key x" by auto
    with False Cons show ?thesis by auto
  qed
qed

lemma filter_Array_sort:
  fixes key :: "'a \<Rightarrow> int"
  assumes cmp: "\<And>a b. cmp a b = key b - key a"
  shows "filter (\<lambda>y. key y = k) (Array_sort cmp xs) = filter (\<lambda>y. key y = k) xs"
  by (induction xs) (simp_all add: Array_sort_def filter_insert_sorted [OF cmp])

text \<open>The sort puts the greater keys first.\<close>

lemma sorted_insert_sorted:
  assumes cmp: "\<And>a b. cmp a b = key b - key a"
    and "sorted_wrt (\<lambda>a b. (key a :: int) \<ge> key b) ys"
  shows "sorted_wrt (\<lambda>a b. key a \<ge> key b) (insert_sorted cmp x ys)"
  using assms(2)
proof (induction ys)
  case Nil
  show ?case by simp
next
  case (Cons y ys)
  show ?case
  proof (cases "cmp x y \<le> 0")
    case True
    with cmp have "key y \<le> key x" by simp
    with True Cons.prems show ?thesis by fastforce
  next
    case False
    with cmp have "key x \<le> key y" by simp
    with False Cons show ?thesis by (auto simp add: set_insert_sorted)
  qed
qed

lemma sorted_Array_sort:
  fixes key :: "'a \<Rightarrow> int"
  assumes cmp: "\<And>a b. cmp a b = key b - key a"
  shows "sorted_wrt (\<lambda>a b. key a \<ge> key b) (Array_sort cmp xs)"
proof (induction xs)
  case Nil
  show ?case by (simp add: Array_sort_def)
next
  case (Cons x xs)
  then have "sorted_wrt (\<lambda>a b. key a \<ge> key b) (insert_sorted cmp x (Array_sort cmp xs))"
    by (rule sorted_insert_sorted [OF cmp])
  then show ?case by (simp add: Array_sort_def)
qed

lemma truncate_rankGames_score: "game.truncate (rankGames_score g) = g"
  by (simp add: rankGames_score_def Let_def game.defs ranked_game.defs)

lemma rankGames_unfold:
  "rankGames games =
     take 5 (Array_sort rankGames_compare (map rankGames_score (filter rankGames_filter games)))"
  by (simp add: rankGames_def slice_def)

lemma rankGames_descending: "sorted_wrt (\<lambda>a b. rankScore a \<ge> rankScore b) (rankGames games)"
  unfolding rankGames_unfold
  by (rule sorted_wrt_take) (rule sorted_Array_sort, simp add: rankGames_compare_def)

lemma prefix_filter_take: "prefix (filter P (take n xs)) (filter P xs)"
proof -
  have "filter P xs = filter P (take n xs) @ filter P (drop n xs)"
    by (metis append_take_drop_id filter_append)
  then show ?thesis by (simp add: prefix_def)
qed

lemma set_rankGames_subset:
  "set (rankGames games) \<subseteq> rankGames_score ` {g \<in> set games. rankGames_filter g}"
proof -
  have "set (rankGames games)
      \<subseteq> set (Array_sort rankGames_compare (map rankGames_score (filter rankGames_filter games)))"
    unfolding rankGames_unfold by (rule set_take_subset)
  then show ?thesis by (simp add: set_Array_sort)
qed

lemma rankGames_score_sel:
  "rankScore (rankGames_score g) =
     (let d = \<bar>or_zero (home_points g) - or_zero (away_points g)\<bar>;
          t = or_zero (home_points g) + or_zero (away_points g)
      in (if d \<le> 8 then 6 else 0) + (if d \<le> 3 then 4 else 0) + (if d = 0 then 3 else 0)
         + (if t > 70 then 3 else 0) + (if t > 80 then 2 else 0)
         + (if truthy_bool (conference_game g) then 1 else 0)
         + (if strict_eq (periods g) 5 then 4 else 0)
         + (if greater (periods g) 5 then 6 else 0))"
  "scoreDiff (rankGames_score g) = \<bar>or_zero (home_points g) - or_zero (away_points g)\<bar>"
  "totalPoints (rankGames_score g) = or_zero (home_points g) + or_zero (away_points g)"
  "winner (rankGames_score g) =
     (if or_zero (home_points g) > or_zero (away_points g) then Home else Away)"
  by (simp_all add: rankGames_score_def Let_def game.defs ranked_game.defs)

lemma rankGames_score_keeps:
  "home_team (rankGames_score g) = home_team g"
  "away_team (rankGames_score g) = away_team g"
  "home_points (rankGames_score g) = home_points g"
  "away_points (rankGames_score g) = away_points g"
  "completed (rankGames_score g) = completed g"
  "periods (rankGames_score g) = periods g"
  "conference_game (rankGames_score g) = conference_game g"
  by (simp_all add: rankGames_score_def Let_def game.defs ranked_game.defs)

lemma not_both_overtime: "\<not> (strict_eq p 5 \<and> greater p 5)"
  by (cases p) simp_all

lemmas example_games =
  payload_def scenario_game_def tied_game_def overtime_game_def negative_game_def
  scoreless_game_def unfinished_game_def

lemmas rankGames_eval =
  rankGames_unfold rankGames_filter_def rankGames_score_def rankGames_compare_def
  Array_sort_def or_zero_def Let_def game.defs ranked_game.defs


section \<open>Properties of the recap, the mapper and the pipeline\<close>

lemma mapToSchema_returns:
  "home_team g = Val h \<Longrightarrow> away_team g = Val a \<Longrightarrow> \<exists>p. mapToSchema g teamData = Inr p"
  by (simp add: mapToSchema_def abbr_of_def Let_def split: sum.splits)

lemma generateRecap_keeps:
  "home_team (generateRecap g r) = home_team g"
  "away_team (generateRecap g r) = away_team g"
  "home_points (generateRecap g r) = home_points g"
  "away_points (generateRecap g r) = away_points g"
  "game.home_id (generateRecap g r) = game.home_id g"
  "game.away_id (generateRecap g r) = game.away_id g"
  "ident (generateRecap g r) = ident g"
  "game.tags (generateRecap g r) = game.tags g"
  by (simp_all add: generateRecap_def Let_def)

lemma mapToSchema_fields:
  assumes "mapToSchema g teamData = Inr p"
  shows "abbr_of teamData (home_team g) = Inr (abbr (home p))"
    and "abbr_of teamData (away_team g) = Inr (abbr (away p))"
    and "logo (home p) = logo_of teamData (home_team g)"
    and "logo (away p) = logo_of teamData (away_team g)"
    and "name (home p) = home_team g"
    and "name (away p) = away_team g"
    and "final p = template_num (home_points g) @ [en_dash] @ template_num (away_points g)"
    and "home_id (ids p) = or_zero (game.home_id g)"
    and "away_id (ids p) = or_zero (game.away_id g)"
    and "game_id (ids p) = (if truthy_id (ident g)
                            then (case ident g of Val i \<Rightarrow> i | _ \<Rightarrow> IdStr []) else IdStr [])"
    and "tags p = (case game.tags g of Val ts \<Rightarrow> ts | _ \<Rightarrow> [])"
  using assms by (auto simp add: mapToSchema_def split: sum.splits)

lemma abbr_of_no_entry:
  "teamData s = None \<Longrightarrow> abbr_of teamData (Val s) = Inr (toUpperCase (substring s 0 4))"
  by (simp add: abbr_of_def)

lemma logo_of_no_entry: "teamData s = None \<Longrightarrow> logo_of teamData (Val s) = []"
  by (simp add: logo_of_def or_empty_def)

lemma abbr_of_empty:
  "abbr_of Map.empty t = Inr x \<Longrightarrow> \<exists>s. t = Val s \<and> x = toUpperCase (substring s 0 4)"
  by (cases t) (simp_all add: abbr_of_def)

lemma logo_of_empty: "logo_of Map.empty t = []"
  by (simp add: logo_of_def or_empty_def)

lemma FRES: "toUpperCase (substring (utf16 ''Fresno State'') 0 4) = utf16 ''FRES''"
  by (simp add: toUpperCase_def substring_def utf16_def)

lemma String_of_int_28: "String_of_int 28 = utf16 ''28''"
  by code_simp

lemma String_of_int_24: "String_of_int 24 = utf16 ''24''"
  by code_simp

lemma scenario_ranked: "rankGames [scenario_game] = [rankGames_score scenario_game]"
  by (simp add: rankGames_unfold rankGames_filter_def Array_sort_def example_games)

lemma truthy_bool_iff: "truthy_bool c = (c = Val True)"
  by (cases c) auto

lemma filter_iff:
  "rankGames_filter g = (completed g = Val True \<and> home_points g \<noteq> Null \<and> away_points g \<noteq> Null)"
  by (simp add: rankGames_filter_def truthy_bool_iff)

lemma rankGames_all_when_few:
  assumes "length (filter rankGames_filter games) \<le> 5"
  shows "set (rankGames games) = rankGames_score ` {g \<in> set games. rankGames_filter g}"
proof -
  have "length (Array_sort rankGames_compare (map rankGames_score (filter rankGames_filter games))) \<le> 5"
    using assms by (simp add: length_Array_sort)
  then have "rankGames games = Array_sort rankGames_compare (map rankGames_score (filter rankGames_filter games))"
    by (simp add: rankGames_unfold)
  then show ?thesis by (simp add: set_Array_sort)
qed

lemma rankGames_none: "filter rankGames_filter games = [] \<Longrightarrow> rankGames games = []"
  by (simp add: rankGames_unfold Array_sort_def)

lemma generateDraft_empty:
  "fetchGames (API_KEY cfg) net = [] \<Longrightarrow> generateDraft cfg net draws now = Exit 1"
  by (simp add: generateDraft_def)

lemma generateDraft_none_eligible:
  assumes "fetchGames (API_KEY cfg) net \<noteq> []"
    and "filter rankGames_filter (fetchGames (API_KEY cfg) net) = []"
  shows "\<exists>p d. generateDraft cfg net draws now = Written p d \<and> top_games d = []"
  using assms by (simp add: generateDraft_def Let_def rankGames_none)

lemma fetchGames_fallback:
  assumes "\<not> truthy_str key \<or> net = Rejects
           \<or> (\<exists>r. net = Resolves r \<and> (\<not> ok r \<or> json r = None))"
  shows "fetchGames key net = getStubGames"
  using assms by (auto simp add: fetchGames_def)

lemma rankGames_stub: "rankGames getStubGames = [rankGames_score (hd getStubGames)]"
  by (simp add: rankGames_unfold rankGames_filter_def Array_sort_def getStubGames_def)

lemma stub_fields:
  "home_team (hd getStubGames) = Val (utf16 ''Fresno State'')"
  "away_team (hd getStubGames) = Val (utf16 ''Georgia Southern'')"
  "home_points (hd getStubGames) = Val 28"
  "away_points (hd getStubGames) = Val 24"
  by (simp_all add: getStubGames_def)

lemma generateDraft_stub:
  assumes "fetchGames (API_KEY cfg) net = getStubGames"
  shows "\<exists>path d p. generateDraft cfg net draws now = Written path d \<and> top_games d = [p]
          \<and> mapToSchema (generateRecap (rankGames_score (hd getStubGames)) (draws 0)) Map.empty = Inr p"
proof -
  let ?g = "generateRecap (rankGames_score (hd getStubGames)) (draws 0)"
  have "\<exists>p. mapToSchema ?g Map.empty = Inr p"
    by (rule mapToSchema_returns)
       (simp_all add: generateRecap_keeps rankGames_score_keeps stub_fields)
  then obtain p where p: "mapToSchema ?g Map.empty = Inr p" ..
  have ne: "getStubGames \<noteq> []" by (simp add: getStubGames_def)
  show ?thesis
    using p ne by (simp add: generateDraft_def assms rankGames_stub Let_def)
qed

lemma map_throwing_Inr:
  "map_throwing f xs = Inr ys \<Longrightarrow> y \<in> set ys \<Longrightarrow> \<exists>x \<in> set xs. f x = Inr y"
proof (induction xs arbitrary: ys)
  case Nil
  then show ?case by simp
next
  case (Cons x xs)
  then show ?case by (auto split: sum.splits)
qed

lemma published_generateDraft:
  "published (generateDraft cfg net draws now) =
     (case map_throwing (\<lambda>(k, game). mapToSchema (generateRecap game (draws k)) Map.empty)
             (enumerate 0 (rankGames (fetchGames (API_KEY cfg) net))) of
        Inr ps \<Rightarrow> ps
      | Inl e \<Rightarrow> [])"
  by (simp add: generateDraft_def published_def Let_def rankGames_unfold Array_sort_def
      split: sum.splits)







section \<open>The claims\<close>

text \<open>
  C1. The claim: when no game record survives the filter, the run ends as a failure and
  no document is produced. The code does not do this. The guard of \<open>generateDraft\<close>
  tests the fetched array, before \<open>rankGames\<close> filters it: when the provider answers
  with one game that is not completed, no record passes the filter (nor is one eligible
  in the specification's sense), the run does not exit with code 1, and it writes a
  document whose \<open>top_games\<close> is empty.
\<close>

theorem C1_no_eligible_writes_document:
  "filter rankGames_filter [unfinished_game] = []
   \<and> filter spec_eligible [unfinished_game] = []
   \<and> fetchGames (API_KEY config_with_key) (answer [unfinished_game]) = [unfinished_game]
   \<and> generateDraft config_with_key (answer [unfinished_game]) first_option timestamp \<noteq> Exit 1
   \<and> map_option top_games
        (written (generateDraft config_with_key (answer [unfinished_game]) first_option timestamp))
       = Some []"
proof -
  have a: "filter rankGames_filter [unfinished_game] = []"
    "filter spec_eligible [unfinished_game] = []"
    by (simp_all add: example_games rankGames_filter_def spec_eligible_def)
  have b: "fetchGames (API_KEY config_with_key) (answer [unfinished_game]) = [unfinished_game]"
    by (simp add: fetchGames_def config_with_key_def answer_def utf16_def)
  from generateDraft_none_eligible [of config_with_key "answer [unfinished_game]"] a b
  obtain p d where "generateDraft config_with_key (answer [unfinished_game]) first_option timestamp
                    = Written p d" "top_games d = []"
    by fastforce
  with a b show ?thesis by simp
qed

text \<open>
  C2, as the code has it. For every record \<open>rankGames\<close> scores, and so for every record
  it returns, the winner is the home side when the home score is strictly greater and the
  away side otherwise: a tied score resolves to the away side.
\<close>

theorem C2_winner:
  "winner (rankGames_score g)
     = (if or_zero (home_points g) > or_zero (away_points g) then Home else Away)
   \<and> (or_zero (home_points g) = or_zero (away_points g) \<longrightarrow>
        winner (rankGames_score g) = Away)
   \<and> (\<forall>r \<in> set (rankGames games).
         winner r = (if or_zero (home_points r) > or_zero (away_points r) then Home else Away))"
proof (intro conjI ballI impI)
  show "winner (rankGames_score g)
     = (if or_zero (home_points g) > or_zero (away_points g) then Home else Away)"
    by (simp add: rankGames_score_sel)
next
  assume "or_zero (home_points g) = or_zero (away_points g)"
  then show "winner (rankGames_score g) = Away"
    by (simp add: rankGames_score_sel)
next
  fix r assume "r \<in> set (rankGames games)"
  with set_rankGames_subset obtain g' where r: "r = rankGames_score g'" by blast
  show "winner r = (if or_zero (home_points r) > or_zero (away_points r) then Home else Away)"
    by (simp add: r rankGames_score_sel rankGames_score_keeps)
qed

theorem C2_winner_witness:
  "or_zero (home_points tied_game) = 21 \<and> or_zero (away_points tied_game) = 21
   \<and> winner (rankGames_score tied_game) = Away
   \<and> rankGames [tied_game] = [rankGames_score tied_game]"
proof -
  have pts: "or_zero (home_points tied_game) = 21" "or_zero (away_points tied_game) = 21"
    by (simp_all add: example_games or_zero_def)
  have ev: "rankGames [tied_game] = [rankGames_score tied_game]"
    by (simp add: rankGames_unfold rankGames_filter_def Array_sort_def example_games)
  show ?thesis using pts ev C2_winner [of tied_game "[tied_game]"] by simp
qed

text \<open>
  C2 as stated fails: the tied game (21 to 21) is ranked with the away side as its
  winner, not the home side.
\<close>

theorem C2_tie_counterexample:
  "home_points tied_game = Val 21 \<and> away_points tied_game = Val 21
   \<and> map winner (rankGames [tied_game]) = [Away]
   \<and> map winner (rankGames [tied_game]) \<noteq> [Home]"
  by (simp add: example_games rankGames_eval)

text \<open>
  C3, as the code has it. For the game of the scenario (A 28, B 24, completed, four
  periods, no conference game) the differential is 4 and the total 52, so only the first
  close bonus fires (4 is at most 8 but not at most 3) and the rank score is 6; the
  \<open>final\<close> field of the published game is the text 28, an en dash, 24, whatever the
  random draw and the team lookup are.
\<close>

theorem C3_scenario:
  "rankGames [scenario_game] = [rankGames_score scenario_game]
   \<and> scoreDiff (rankGames_score scenario_game) = 4
   \<and> totalPoints (rankGames_score scenario_game) = 52
   \<and> rankScore (rankGames_score scenario_game) = 6
   \<and> map_sum id final (mapToSchema (generateRecap (rankGames_score scenario_game) r) teamData)
       = Inr (utf16 ''28'' @ [en_dash] @ utf16 ''24'')
   \<and> utf16 ''28'' @ [en_dash] @ utf16 ''24'' = [50, 56, 8211, 50, 52]"
proof -
  let ?g = "generateRecap (rankGames_score scenario_game) r"
  have teams: "home_team ?g = Val (utf16 ''A'')" "away_team ?g = Val (utf16 ''B'')"
    by (simp_all add: generateRecap_keeps rankGames_score_keeps example_games)
  then obtain p where p: "mapToSchema ?g teamData = Inr p"
    using mapToSchema_returns by blast
  have "final p = utf16 ''28'' @ [en_dash] @ utf16 ''24''"
    using mapToSchema_fields(7) [OF p]
    by (simp add: generateRecap_keeps rankGames_score_keeps example_games
        String_of_int_28 String_of_int_24)
  with p have "map_sum id final (mapToSchema ?g teamData)
       = Inr (utf16 ''28'' @ [en_dash] @ utf16 ''24'')" by simp
  moreover have "utf16 ''28'' @ [en_dash] @ utf16 ''24'' = [50, 56, 8211, 50, 52]"
    by (simp add: utf16_def en_dash_def)
  moreover have "scoreDiff (rankGames_score scenario_game) = 4"
    "totalPoints (rankGames_score scenario_game) = 52"
    "rankScore (rankGames_score scenario_game) = 6"
    by (simp_all add: rankGames_score_sel example_games or_zero_def)
  ultimately show ?thesis
    using scenario_ranked by simp
qed

theorem C3_scenario_witness:
  "map_sum id final (mapToSchema (generateRecap (rankGames_score scenario_game) Pick0) Map.empty)
       = Inr [50, 56, 8211, 50, 52]
   \<and> map rankScore (rankGames [scenario_game]) = [6]"
  using C3_scenario [of Pick0 Map.empty] by simp

text \<open>C3 as stated fails: the rank score of the scenario's game is 6, not 10.\<close>

theorem C3_scenario_counterexample:
  "map rankScore (rankGames [scenario_game]) = [6]
   \<and> map rankScore (rankGames [scenario_game]) \<noteq> [10]"
proof -
  have "rankScore (rankGames_score scenario_game) = 6"
    by (simp add: rankGames_score_sel example_games or_zero_def)
  then show ?thesis by (simp add: scenario_ranked)
qed

text \<open>
  C4, as the code has it. The filter of \<open>rankGames\<close> admits exactly the records whose
  \<open>completed\<close> is true and whose two scores are both not \<open>null\<close> (the test is the strict
  \<open>!== null\<close>; the sign of a score is not tested). Every record \<open>rankGames\<close> returns
  is such a record of the input, and when at most five records pass the filter each of
  them is returned.
\<close>

theorem C4_filter:
  "(rankGames_filter g
      = (completed g = Val True \<and> home_points g \<noteq> Null \<and> away_points g \<noteq> Null))
   \<and> (\<forall>r \<in> set (rankGames games).
         game.truncate r \<in> set games
         \<and> completed r = Val True \<and> home_points r \<noteq> Null \<and> away_points r \<noteq> Null)
   \<and> (g \<in> set games \<and> completed g = Val True \<and> home_points g \<noteq> Null \<and> away_points g \<noteq> Null
        \<and> length (filter rankGames_filter games) \<le> 5
        \<longrightarrow> g \<in> game.truncate ` set (rankGames games))"
proof (intro conjI ballI impI)
  show "rankGames_filter g
      = (completed g = Val True \<and> home_points g \<noteq> Null \<and> away_points g \<noteq> Null)"
    by (rule filter_iff)
next
  fix r assume "r \<in> set (rankGames games)"
  with set_rankGames_subset obtain g' where g': "r = rankGames_score g'" "g' \<in> set games" "rankGames_filter g'"
    by blast
  then show "game.truncate r \<in> set games" by (simp add: truncate_rankGames_score)
  from g' show "completed r = Val True" by (simp add: rankGames_score_keeps filter_iff)
  from g' show "home_points r \<noteq> Null" by (simp add: rankGames_score_keeps filter_iff)
  from g' show "away_points r \<noteq> Null" by (simp add: rankGames_score_keeps filter_iff)
next
  assume a: "g \<in> set games \<and> completed g = Val True \<and> home_points g \<noteq> Null \<and> away_points g \<noteq> Null
        \<and> length (filter rankGames_filter games) \<le> 5"
  then have "rankGames_score g \<in> set (rankGames games)"
    by (simp add: rankGames_all_when_few filter_iff)
  then have "game.truncate (rankGames_score g) \<in> game.truncate ` set (rankGames games)"
    by (rule imageI)
  then show "g \<in> game.truncate ` set (rankGames games)"
    by (simp add: truncate_rankGames_score)
qed

theorem C4_filter_witness:
  "rankGames_filter negative_game \<and> rankGames_filter scoreless_game
   \<and> \<not> rankGames_filter unfinished_game
   \<and> negative_game \<in> game.truncate ` set (rankGames [unfinished_game, negative_game])
   \<and> map game.truncate (rankGames [unfinished_game, negative_game]) = [negative_game]"
proof -
  have ev: "map game.truncate (rankGames [unfinished_game, negative_game]) = [negative_game]"
    by (simp add: example_games rankGames_eval)
  have hyp: "negative_game \<in> set [unfinished_game, negative_game]
     \<and> completed negative_game = Val True \<and> home_points negative_game \<noteq> Null
     \<and> away_points negative_game \<noteq> Null
     \<and> length (filter rankGames_filter [unfinished_game, negative_game]) \<le> 5"
    by (simp add: example_games rankGames_filter_def)
  have f: "rankGames_filter negative_game" "rankGames_filter scoreless_game"
    "\<not> rankGames_filter unfinished_game"
    by (simp_all add: example_games rankGames_filter_def)
  show ?thesis
    using ev hyp f C4_filter [of negative_game "[unfinished_game, negative_game]"] by blast
qed

text \<open>
  C4 as stated fails: a completed game with the negative home score -3 passes the filter
  and is ranked.
\<close>

theorem C4_filter_counterexample:
  "completed negative_game = Val True \<and> home_points negative_game = Val (- 3)
   \<and> rankGames_filter negative_game
   \<and> map game.truncate (rankGames [negative_game]) = [negative_game]"
  by (simp add: example_games rankGames_eval)

text \<open>
  C5. For every record \<open>rankGames\<close> scores (and it returns scored records that passed
  its filter, nothing else), the rank score is the sum of the bonuses
  that fire independently: 6 for a score differential of at most 8, 4 more for at most 3,
  3 more for 0 (13 in all for a tie); 3 for more than 70 total points and 2 more for
  more than 80; 1 for a conference game; and for overtime 4 when the periods are exactly
  5 or 6 when they are more than 5, never both. The differential and the total are
  those of the two scores, a missing or zero score counting 0.
\<close>

theorem C5_rank_score:
  assumes "r = rankGames_score g"
  shows "rankScore r =
           (if scoreDiff r \<le> 8 then 6 else 0) + (if scoreDiff r \<le> 3 then 4 else 0)
         + (if scoreDiff r = 0 then 3 else 0)
         + (if totalPoints r > 70 then 3 else 0) + (if totalPoints r > 80 then 2 else 0)
         + (if truthy_bool (conference_game g) then 1 else 0)
         + (if strict_eq (periods g) 5 then 4 else if greater (periods g) 5 then 6 else 0)
       \<and> scoreDiff r = \<bar>or_zero (home_points g) - or_zero (away_points g)\<bar>
       \<and> totalPoints r = or_zero (home_points g) + or_zero (away_points g)
       \<and> (scoreDiff r = 0 \<longrightarrow>
            rankScore r = 13
              + (if totalPoints r > 70 then 3 else 0) + (if totalPoints r > 80 then 2 else 0)
              + (if truthy_bool (conference_game g) then 1 else 0)
              + (if strict_eq (periods g) 5 then 4 else if greater (periods g) 5 then 6 else 0))
       \<and> \<not> (strict_eq (periods g) 5 \<and> greater (periods g) 5)
       \<and> set (rankGames games) \<subseteq> rankGames_score ` {g' \<in> set games. rankGames_filter g'}"
proof -
  have sel: "scoreDiff r = \<bar>or_zero (home_points g) - or_zero (away_points g)\<bar>"
    "totalPoints r = or_zero (home_points g) + or_zero (away_points g)"
    by (simp_all add: assms rankGames_score_sel)
  have score: "rankScore r =
           (if scoreDiff r \<le> 8 then 6 else 0) + (if scoreDiff r \<le> 3 then 4 else 0)
         + (if scoreDiff r = 0 then 3 else 0)
         + (if totalPoints r > 70 then 3 else 0) + (if totalPoints r > 80 then 2 else 0)
         + (if truthy_bool (conference_game g) then 1 else 0)
         + (if strict_eq (periods g) 5 then 4 else if greater (periods g) 5 then 6 else 0)"
    using not_both_overtime [of "periods g"]
    by (simp add: assms rankGames_score_sel Let_def)
  have tie: "scoreDiff r = 0 \<longrightarrow>
            rankScore r = 13
              + (if totalPoints r > 70 then 3 else 0) + (if totalPoints r > 80 then 2 else 0)
              + (if truthy_bool (conference_game g) then 1 else 0)
              + (if strict_eq (periods g) 5 then 4 else if greater (periods g) 5 then 6 else 0)"
    using score by simp
  show ?thesis
    by (intro conjI) (fact sel score tie not_both_overtime set_rankGames_subset)+
qed

theorem C5_rank_score_witness:
  "rankScore (rankGames_score overtime_game) = 25
   \<and> scoreDiff (rankGames_score overtime_game) = 0
   \<and> totalPoints (rankGames_score overtime_game) = 84
   \<and> map rankScore (rankGames [scenario_game, overtime_game]) = [25, 6]"
proof -
  have ev: "map rankScore (rankGames [scenario_game, overtime_game]) = [25, 6]"
    by code_simp
  have g: "or_zero (home_points overtime_game) = 42" "or_zero (away_points overtime_game) = 42"
    "periods overtime_game = Val 6" "conference_game overtime_game = Val True"
    by (simp_all add: example_games or_zero_def)
  show ?thesis
    using ev g C5_rank_score [of "rankGames_score overtime_game" overtime_game
        "[scenario_game, overtime_game]"]
    by simp
qed

text \<open>
  C6. The sort of \<open>rankGames\<close> is stable: for every rank score \<open>k\<close>, the records of
  score \<open>k\<close> in the output are, in the same order, an initial part of the records of
  score \<open>k\<close> in the sequence of the records that pass the filter. (The output keeps five
  records, so it may hold only the first of them.) Two records of equal score hence stand
  in the output as they stand in the input. The output itself is in descending order of
  the rank score.
\<close>

theorem C6_sort_stable:
  "prefix (map game.truncate (filter (\<lambda>r. rankScore r = k) (rankGames games)))
          (filter (\<lambda>g. rankScore (rankGames_score g) = k) (filter rankGames_filter games))
   \<and> sorted_wrt (\<lambda>a b. rankScore a \<ge> rankScore b) (rankGames games)"
proof -
  let ?scored = "map rankGames_score (filter rankGames_filter games)"
  let ?P = "\<lambda>r. rankScore r = k"
  have cmp: "\<And>a b. rankGames_compare a b = rankScore b - rankScore a"
    by (simp add: rankGames_compare_def)
  have "prefix (filter ?P (rankGames games)) (filter ?P (Array_sort rankGames_compare ?scored))"
    unfolding rankGames_unfold by (rule prefix_filter_take)
  also have "filter ?P (Array_sort rankGames_compare ?scored) = filter ?P ?scored"
    using cmp by (rule filter_Array_sort)
  finally have "prefix (map game.truncate (filter ?P (rankGames games)))
                       (map game.truncate (filter ?P ?scored))"
    by (rule map_mono_prefix)
  moreover have "map game.truncate (filter ?P ?scored)
      = filter (\<lambda>g. rankScore (rankGames_score g) = k) (filter rankGames_filter games)"
    by (simp add: filter_map comp_def truncate_rankGames_score)
  ultimately show ?thesis using rankGames_descending by simp
qed

theorem C6_sort_stable_witness:
  "prefix (map game.truncate (filter (\<lambda>r. rankScore r = 13)
             (rankGames [tied_game, scenario_game, scoreless_game])))
          [tied_game, scoreless_game]
   \<and> map game.truncate (rankGames [tied_game, scenario_game, scoreless_game])
       = [tied_game, scoreless_game, scenario_game]"
proof -
  have "filter (\<lambda>g. rankScore (rankGames_score g) = 13)
          (filter rankGames_filter [tied_game, scenario_game, scoreless_game])
        = [tied_game, scoreless_game]"
    by code_simp
  moreover have "map game.truncate (rankGames [tied_game, scenario_game, scoreless_game])
       = [tied_game, scoreless_game, scenario_game]"
    by code_simp
  ultimately show ?thesis
    using C6_sort_stable [of 13 "[tied_game, scenario_game, scoreless_game]"] by simp
qed

text \<open>
  C7. For a game with its two team names, \<open>mapToSchema\<close> returns a published game in
  which: a team the lookup has no entry for gets the uppercased first four characters of
  its name as abbreviation (FRES for Fresno State) and the empty string as logo; the
  \<open>final\<close> field is the home score, an en dash and the away score; a missing
  \<open>home_id\<close> or \<open>away_id\<close> becomes 0 and a missing \<open>id\<close> the empty string.
\<close>

theorem C7_mapToSchema_fallbacks:
  assumes "home_team g = Val h" and "away_team g = Val a"
  shows "\<exists>p. mapToSchema g teamData = Inr p
     \<and> (teamData h = None \<longrightarrow>
          abbr (home p) = toUpperCase (substring h 0 4) \<and> logo (home p) = [])
     \<and> (teamData a = None \<longrightarrow>
          abbr (away p) = toUpperCase (substring a 0 4) \<and> logo (away p) = [])
     \<and> toUpperCase (substring (utf16 ''Fresno State'') 0 4) = utf16 ''FRES''
     \<and> final p = template_num (home_points g) @ [en_dash] @ template_num (away_points g)
     \<and> (\<forall>x y. home_points g = Val x \<and> away_points g = Val y \<longrightarrow>
          final p = String_of_int x @ [en_dash] @ String_of_int y)
     \<and> (game.home_id g = Absent \<or> game.home_id g = Null \<longrightarrow> home_id (ids p) = 0)
     \<and> (game.away_id g = Absent \<or> game.away_id g = Null \<longrightarrow> away_id (ids p) = 0)
     \<and> (ident g = Absent \<or> ident g = Null \<longrightarrow> game_id (ids p) = IdStr [])"
proof -
  from assms obtain p where p: "mapToSchema g teamData = Inr p"
    using mapToSchema_returns by blast
  note f = mapToSchema_fields [OF p]
  have c1: "teamData h = None \<longrightarrow>
          abbr (home p) = toUpperCase (substring h 0 4) \<and> logo (home p) = []"
    using f(1) f(3) assms(1) by (auto simp add: abbr_of_no_entry logo_of_no_entry)
  have c2: "teamData a = None \<longrightarrow>
          abbr (away p) = toUpperCase (substring a 0 4) \<and> logo (away p) = []"
    using f(2) f(4) assms(2) by (auto simp add: abbr_of_no_entry logo_of_no_entry)
  have c3: "\<forall>x y. home_points g = Val x \<and> away_points g = Val y \<longrightarrow>
          final p = String_of_int x @ [en_dash] @ String_of_int y"
    using f(7) by simp
  have c4: "game.home_id g = Absent \<or> game.home_id g = Null \<longrightarrow> home_id (ids p) = 0"
    using f(8) by (auto simp add: or_zero_def)
  have c5: "game.away_id g = Absent \<or> game.away_id g = Null \<longrightarrow> away_id (ids p) = 0"
    using f(9) by (auto simp add: or_zero_def)
  have c6: "ident g = Absent \<or> ident g = Null \<longrightarrow> game_id (ids p) = IdStr []"
    using f(10) by auto
  show ?thesis
    by (intro exI [of _ p] conjI) (fact p c1 c2 FRES f(7) c3 c4 c5 c6)+
qed

theorem C7_mapToSchema_fallbacks_witness:
  "home_team (hd getStubGames) = Val (utf16 ''Fresno State'')
   \<and> away_team (hd getStubGames) = Val (utf16 ''Georgia Southern'')
   \<and> (\<exists>p. mapToSchema (hd getStubGames) Map.empty = Inr p
        \<and> abbr (home p) = utf16 ''FRES'' \<and> logo (home p) = []
        \<and> abbr (away p) = utf16 ''GEOR'' \<and> logo (away p) = []
        \<and> final p = [50, 56, 8211, 50, 52]
        \<and> home_id (ids p) = 0 \<and> away_id (ids p) = 0)"
proof -
  have h: "home_team (hd getStubGames) = Val (utf16 ''Fresno State'')"
    and a: "away_team (hd getStubGames) = Val (utf16 ''Georgia Southern'')"
    by (simp_all add: getStubGames_def)
  have pts: "home_points (hd getStubGames) = Val 28" "away_points (hd getStubGames) = Val 24"
    "game.home_id (hd getStubGames) = Absent" "game.away_id (hd getStubGames) = Absent"
    by (simp_all add: getStubGames_def)
  have up: "toUpperCase (substring (utf16 ''Georgia Southern'') 0 4) = utf16 ''GEOR''"
    "String_of_int 28 @ [en_dash] @ String_of_int 24 = [50, 56, 8211, 50, 52]"
    by code_simp+
  from C7_mapToSchema_fallbacks [OF h a, of Map.empty]
  show ?thesis using h a pts up by auto
qed




text \<open>
  C9. When the fetch fails (no API key, a transport error, a response that is not OK, or
  a body that does not parse), \<open>fetchGames\<close> returns the stub data, which is one record,
  and the run goes on to write a document holding that one game: the failure never ends
  the run.
\<close>

theorem C9_fetch_failure_uses_stub:
  assumes "\<not> truthy_str (API_KEY cfg) \<or> net = Rejects
           \<or> (\<exists>r. net = Resolves r \<and> (\<not> ok r \<or> json r = None))"
  shows "fetchGames (API_KEY cfg) net = getStubGames
       \<and> length getStubGames = 1
       \<and> (\<exists>path d p. generateDraft cfg net draws now = Written path d
             \<and> top_games d = [p]
             \<and> name (home p) = Val (utf16 ''Fresno State'')
             \<and> name (away p) = Val (utf16 ''Georgia Southern'')
             \<and> final p = utf16 ''28'' @ [en_dash] @ utf16 ''24'')"
proof -
  have stub: "fetchGames (API_KEY cfg) net = getStubGames"
    using assms by (rule fetchGames_fallback)
  from generateDraft_stub [OF stub, of draws now] obtain path d p where
    w: "generateDraft cfg net draws now = Written path d" "top_games d = [p]"
    and p: "mapToSchema (generateRecap (rankGames_score (hd getStubGames)) (draws 0)) Map.empty
            = Inr p"
    by blast
  note f = mapToSchema_fields [OF p]
  have "name (home p) = Val (utf16 ''Fresno State'')"
    using f(5) by (simp add: generateRecap_keeps rankGames_score_keeps stub_fields)
  moreover have "name (away p) = Val (utf16 ''Georgia Southern'')"
    using f(6) by (simp add: generateRecap_keeps rankGames_score_keeps stub_fields)
  moreover have "final p = utf16 ''28'' @ [en_dash] @ utf16 ''24''"
    using f(7) by (simp add: generateRecap_keeps rankGames_score_keeps stub_fields
        String_of_int_28 String_of_int_24)
  moreover have "length getStubGames = 1" by (simp add: getStubGames_def)
  ultimately show ?thesis using stub w by blast
qed

theorem C9_fetch_failure_uses_stub_witness:
  "\<not> truthy_str (API_KEY config_without_key)
   \<and> fetchGames (API_KEY config_without_key) Rejects = getStubGames
   \<and> fetchGames (API_KEY config_with_key) Rejects = getStubGames
   \<and> fetchGames (API_KEY config_with_key) (Resolves \<lparr>ok = False, status = 401, json = None\<rparr>)
       = getStubGames
   \<and> map final (published (generateDraft config_without_key Rejects first_option timestamp))
       = [utf16 ''28'' @ [en_dash] @ utf16 ''24'']
   \<and> map final (published (generateDraft config_with_key Rejects first_option timestamp))
       = [utf16 ''28'' @ [en_dash] @ utf16 ''24'']
   \<and> map final (published (generateDraft config_with_key
          (Resolves \<lparr>ok = False, status = 401, json = None\<rparr>) first_option timestamp))
       = [utf16 ''28'' @ [en_dash] @ utf16 ''24'']"
proof -
  have k: "\<not> truthy_str (API_KEY config_without_key)"
    by (simp add: config_without_key_def)
  show ?thesis
    using k
      C9_fetch_failure_uses_stub [of config_without_key Rejects first_option timestamp]
      C9_fetch_failure_uses_stub [of config_with_key Rejects first_option timestamp]
      C9_fetch_failure_uses_stub [of config_with_key
          "Resolves \<lparr>ok = False, status = 401, json = None\<rparr>" first_option timestamp]
    by (auto simp add: published_def)
qed

text \<open>
  C10. \<open>generateDraft\<close> calls \<open>mapToSchema\<close> with the empty lookup for every ranked
  game, so in every document it writes each published game has, for the home and for the
  away team, the uppercased first four characters of the name as abbreviation and the
  empty string as logo.
\<close>

theorem C10_pipeline_uses_fallback:
  "published (generateDraft cfg net draws now) =
     (case map_throwing (\<lambda>(k, game). mapToSchema (generateRecap game (draws k)) Map.empty)
             (enumerate 0 (rankGames (fetchGames (API_KEY cfg) net))) of
        Inr ps \<Rightarrow> ps
      | Inl e \<Rightarrow> [])
   \<and> (\<forall>p \<in> set (published (generateDraft cfg net draws now)).
         (\<exists>h. name (home p) = Val h \<and> abbr (home p) = toUpperCase (substring h 0 4))
         \<and> logo (home p) = []
         \<and> (\<exists>a. name (away p) = Val a \<and> abbr (away p) = toUpperCase (substring a 0 4))
         \<and> logo (away p) = [])"
proof (intro conjI ballI)
  show "published (generateDraft cfg net draws now) =
     (case map_throwing (\<lambda>(k, game). mapToSchema (generateRecap game (draws k)) Map.empty)
             (enumerate 0 (rankGames (fetchGames (API_KEY cfg) net))) of
        Inr ps \<Rightarrow> ps
      | Inl e \<Rightarrow> [])"
    by (rule published_generateDraft)
next
  fix p assume "p \<in> set (published (generateDraft cfg net draws now))"
  then have "\<exists>ps. map_throwing
             (\<lambda>(k, game). mapToSchema (generateRecap game (draws k)) Map.empty)
             (enumerate 0 (rankGames (fetchGames (API_KEY cfg) net))) = Inr ps \<and> p \<in> set ps"
    unfolding published_generateDraft
    by (cases "map_throwing
             (\<lambda>(k, game). mapToSchema (generateRecap game (draws k)) Map.empty)
             (enumerate 0 (rankGames (fetchGames (API_KEY cfg) net)))") simp_all
  then obtain ps where ps: "map_throwing
             (\<lambda>(k, game). mapToSchema (generateRecap game (draws k)) Map.empty)
             (enumerate 0 (rankGames (fetchGames (API_KEY cfg) net))) = Inr ps" "p \<in> set ps"
    by blast
  from map_throwing_Inr [OF ps] obtain k g where
    p: "mapToSchema (generateRecap g (draws k)) Map.empty = Inr p"
    by auto
  note f = mapToSchema_fields [OF p]
  from abbr_of_empty [OF f(1)] f(5)
  show "\<exists>h. name (home p) = Val h \<and> abbr (home p) = toUpperCase (substring h 0 4)"
    by auto
  from abbr_of_empty [OF f(2)] f(6)
  show "\<exists>a. name (away p) = Val a \<and> abbr (away p) = toUpperCase (substring a 0 4)"
    by auto
  show "logo (home p) = []" using f(3) by (simp add: logo_of_empty)
  show "logo (away p) = []" using f(4) by (simp add: logo_of_empty)
qed

theorem C10_pipeline_uses_fallback_witness:
  "map (\<lambda>p. (name (home p), abbr (home p), logo (home p)))
       (published (generateDraft config_without_key Rejects first_option timestamp))
     = [(Val (utf16 ''Fresno State''), utf16 ''FRES'', [])]
   \<and> map (\<lambda>p. (name (away p), abbr (away p), logo (away p)))
       (published (generateDraft config_without_key Rejects first_option timestamp))
     = [(Val (utf16 ''Georgia Southern''), utf16 ''GEOR'', [])]"
proof -
  have ev: "map (\<lambda>p. (name (home p), name (away p)))
       (published (generateDraft config_without_key Rejects first_option timestamp))
     = [(Val (utf16 ''Fresno State''), Val (utf16 ''Georgia Southern''))]"
    by code_simp
  have up: "toUpperCase (substring (utf16 ''Fresno State'') 0 4) = utf16 ''FRES''"
    "toUpperCase (substring (utf16 ''Georgia Southern'') 0 4) = utf16 ''GEOR''"
    by code_simp+
  from ev obtain p where p: "published (generateDraft config_without_key Rejects first_option timestamp) = [p]"
    by auto
  from C10_pipeline_uses_fallback [of config_without_key Rejects first_option timestamp]
  show ?thesis using ev up by (auto simp add: p)
qed

end
